theory Spec2Isabelle
  imports Main "HOL-Library.Sublist" "HOL-Library.AList"
begin

section \<open>Texts, paths and object-store keys\<close>

text \<open>
  The program is a Flask application (\<^verbatim>\<open>main.py\<close>): \<^verbatim>\<open>upload\<close> stages an
  uploaded image, publishes it to a bucket, asks a caption service for a JSON
  document, publishes that document beside the image and removes the staged files;
  \<^verbatim>\<open>get_file\<close> downloads both objects again and renders them.

  A Python \<^verbatim>\<open>str\<close> is modelled as a \<open>string\<close>, each character standing for the
  code point of the same number (0 to 255). File contents and bucket objects are
  \<open>string\<close>s too: a file holds the characters written to it, and text encodings are
  not modelled.
\<close>

text \<open>\<^verbatim>\<open>old in s\<close>: \<open>old\<close> occurs in \<open>s\<close> as a contiguous substring.\<close>

fun contains :: "string \<Rightarrow> string \<Rightarrow> bool" where
  "contains old [] = (old = [])"
| "contains old (c # cs) = (prefix old (c # cs) \<or> contains old cs)"

text \<open>
  \<^verbatim>\<open>s.replace(old, new)\<close>: every occurrence of \<open>old\<close>, found from the left and
  without overlap, becomes \<open>new\<close>. For an empty \<open>old\<close> Python puts \<open>new\<close> before
  every character and at the end.
\<close>

fun replace :: "string \<Rightarrow> string \<Rightarrow> string \<Rightarrow> string" where
  "replace [] new s = new @ concat (map (\<lambda>c. c # new) s)"
| "replace (a # as) new [] = []"
| "replace (a # as) new (c # cs) =
     (if prefix (a # as) (c # cs) then new @ replace (a # as) new (drop (length as) cs)
      else c # replace (a # as) new cs)"

definition BUCKET_NAME :: string where
  "BUCKET_NAME = ''sutcliff-fau-cloud-native''"

definition LOCAL_DIR :: string where
  "LOCAL_DIR = ''files''"

text \<open>
  \<^verbatim>\<open>os.path.join(a, b)\<close> on a POSIX system: an absolute \<open>b\<close> discards \<open>a\<close>;
  otherwise the two are joined by one slash, which is left out when \<open>a\<close> is empty or
  already ends in one.
\<close>

definition path_join :: "string \<Rightarrow> string \<Rightarrow> string" where
  "path_join a b =
     (if b \<noteq> [] \<and> hd b = CHR ''/'' then b
      else if a = [] \<or> last a = CHR ''/'' then a @ b
      else a @ ''/'' @ b)"

text \<open>
  The expression \<^verbatim>\<open>x.replace(".jpeg", ".json").replace(".jpg", ".json")\<close>, which
  \<^verbatim>\<open>upload\<close> applies to the staged path and to the filename, and \<^verbatim>\<open>get_file\<close>
  to the filename.
\<close>

definition json_name :: "string \<Rightarrow> string" where
  "json_name x = replace ''.jpg'' ''.json'' (replace ''.jpeg'' ''.json'' x)"

section \<open>The JSON library\<close>

text \<open>
  \<^verbatim>\<open>json.loads\<close>, \<^verbatim>\<open>json.load\<close> and \<^verbatim>\<open>json.dump\<close> belong to Python's standard
  library. They are modelled after CPython's \<^verbatim>\<open>json\<close> package with its default
  settings (\<^verbatim>\<open>strict=True\<close>, \<^verbatim>\<open>ensure_ascii=True\<close>, \<^verbatim>\<open>allow_nan=True\<close>, separators
  \<^verbatim>\<open>", "\<close> and \<^verbatim>\<open>": "\<close>).

  A decoded string is a list of code points, since an escape \<^verbatim>\<open>\uXXXX\<close> can denote any
  code point. A dictionary is an association list in insertion order, a repeated key
  keeping its first position and its last value. A number without fraction and exponent
  is an \<open>int\<close>; any other number, \<^verbatim>\<open>NaN\<close> and the infinities are kept as the token
  that was read (floating-point values are not modelled). Python's recursion limit and
  its limit on the number of digits of an integer are not modelled either.
\<close>

type_synonym ustr = "nat list"

datatype json =
    JNull
  | JBool bool
  | JInt int
  | JFloat string
  | JStr ustr
  | JArr "json list"
  | JObj "(ustr \<times> json) list"

definition ustr :: "string \<Rightarrow> ustr" where
  "ustr s = map of_char s"

subsection \<open>Decoding\<close>

definition is_ws :: "char \<Rightarrow> bool" where
  "is_ws c \<longleftrightarrow> c = CHR '' '' \<or> c = CHR 0x09 \<or> c = CHR 0x0A \<or> c = CHR 0x0D"

definition skip_ws :: "string \<Rightarrow> string" where
  "skip_ws s = dropWhile is_ws s"

definition is_digit :: "char \<Rightarrow> bool" where
  "is_digit c \<longleftrightarrow> (48::nat) \<le> of_char c \<and> (of_char c :: nat) \<le> 57"

definition hex_val :: "char \<Rightarrow> nat option" where
  "hex_val c =
     (let n = of_char c :: nat in
      if 48 \<le> n \<and> n \<le> 57 then Some (n - 48)
      else if 97 \<le> n \<and> n \<le> 102 then Some (n - 87)
      else if 65 \<le> n \<and> n \<le> 70 then Some (n - 55)
      else None)"

text \<open>The four hexadecimal digits of an escape \<^verbatim>\<open>\uXXXX\<close>.\<close>

fun decode_uXXXX :: "string \<Rightarrow> (nat \<times> string) option" where
  "decode_uXXXX (a # b # c # d # rest) =
     (case (hex_val a, hex_val b, hex_val c, hex_val d) of
        (Some w, Some x, Some y, Some z) \<Rightarrow> Some (((w * 16 + x) * 16 + y) * 16 + z, rest)
      | _ \<Rightarrow> None)"
| "decode_uXXXX _ = None"

text \<open>The one-letter escapes (\<^verbatim>\<open>BACKSLASH\<close> in \<^verbatim>\<open>json/decoder.py\<close>).\<close>

definition backslash :: "char \<Rightarrow> nat option" where
  "backslash e =
     (if e = CHR 0x22 then Some 0x22
      else if e = CHR 0x5C then Some 0x5C
      else if e = CHR ''/'' then Some 0x2F
      else if e = CHR ''b'' then Some 0x08
      else if e = CHR ''f'' then Some 0x0C
      else if e = CHR ''n'' then Some 0x0A
      else if e = CHR ''r'' then Some 0x0D
      else if e = CHR ''t'' then Some 0x09
      else None)"

definition cons_result :: "'a \<Rightarrow> ('a list \<times> 'b) option \<Rightarrow> ('a list \<times> 'b) option" where
  "cons_result x r = map_option (\<lambda>(xs, rest). (x # xs, rest)) r"

text \<open>
  \<^verbatim>\<open>scanstring\<close>, entered after the opening quote: the decoded string and the input
  after the closing quote. A control character is refused, and a high surrogate escape
  followed by a low surrogate escape is one code point.
\<close>

fun scanstring :: "string \<Rightarrow> (ustr \<times> string) option" where
  "scanstring [] = None"
| "scanstring (c # cs) =
     (if c = CHR 0x22 then Some ([], cs)
      else if c = CHR 0x5C then
        (case cs of
           [] \<Rightarrow> None
         | e # es \<Rightarrow>
             if e = CHR ''u'' then
               (case decode_uXXXX es of
                  None \<Rightarrow> None
                | Some (uni, rest) \<Rightarrow>
                    if 0xD800 \<le> uni \<and> uni \<le> 0xDBFF \<and> take 2 rest = [CHR 0x5C, CHR ''u''] then
                      (case decode_uXXXX (drop 2 rest) of
                         None \<Rightarrow> None
                       | Some (uni2, rest2) \<Rightarrow>
                           if 0xDC00 \<le> uni2 \<and> uni2 \<le> 0xDFFF
                           then cons_result (0x10000 + ((uni - 0xD800) * 1024 + (uni2 - 0xDC00)))
                                  (if length rest2 < length cs then scanstring rest2 else None)
                           else cons_result uni
                                  (if length rest < length cs then scanstring rest else None))
                    else cons_result uni (if length rest < length cs then scanstring rest else None))
             else
               (case backslash e of
                  None \<Rightarrow> None
                | Some ch \<Rightarrow> cons_result ch (scanstring es)))
      else if (of_char c :: nat) < 0x20 then None
      else cons_result (of_char c) (scanstring cs))"

text \<open>
  A number token, as \<^verbatim>\<open>NUMBER_RE\<close> matches it: an optional minus sign, an integer part
  without leading zeros, an optional fraction, an optional exponent (taken only when
  it has a digit).
\<close>

definition nat_of_digits :: "string \<Rightarrow> nat" where
  "nat_of_digits ds = foldl (\<lambda>n d. 10 * n + (of_char d - 48)) 0 ds"

definition scan_int_part :: "string \<Rightarrow> (string \<times> string) option" where
  "scan_int_part s =
     (case s of
        [] \<Rightarrow> None
      | d # t \<Rightarrow>
          if d = CHR ''0'' then Some ([d], t)
          else if is_digit d then Some (d # takeWhile is_digit t, dropWhile is_digit t)
          else None)"

definition scan_frac :: "string \<Rightarrow> string \<times> string" where
  "scan_frac s =
     (case s of
        p # d # t \<Rightarrow>
          if p = CHR ''.'' \<and> is_digit d
          then (p # d # takeWhile is_digit t, dropWhile is_digit t)
          else ([], s)
      | _ \<Rightarrow> ([], s))"

definition scan_exp :: "string \<Rightarrow> string \<times> string" where
  "scan_exp s =
     (case s of
        [] \<Rightarrow> ([], s)
      | e # t \<Rightarrow>
          if e = CHR ''e'' \<or> e = CHR ''E'' then
            (let (sign, t') =
                   (case t of
                      [] \<Rightarrow> ([], t)
                    | g # u \<Rightarrow> if g = CHR ''+'' \<or> g = CHR ''-'' then ([g], u) else ([], t));
                 ds = takeWhile is_digit t'
             in if ds = [] then ([], s) else (e # sign @ ds, dropWhile is_digit t'))
          else ([], s))"

definition scan_number :: "string \<Rightarrow> (json \<times> string) option" where
  "scan_number s =
     (let (sign, s1) =
            (case s of
               [] \<Rightarrow> ([], s)
             | m # t \<Rightarrow> if m = CHR ''-'' then ([m], t) else ([], s))
      in case scan_int_part s1 of
           None \<Rightarrow> None
         | Some (ds, s2) \<Rightarrow>
             (let (frac, s3) = scan_frac s2;
                  (ex, s4) = scan_exp s3
              in if frac = [] \<and> ex = []
                 then Some (JInt (if sign = [] then int (nat_of_digits ds)
                                  else - int (nat_of_digits ds)), s4)
                 else Some (JFloat (sign @ ds @ frac @ ex), s4)))"

text \<open>
  A dictionary is filled pair by pair (\<^verbatim>\<open>PyDict_SetItem\<close>): a key that is already
  there keeps its place and takes the new value.
\<close>

definition dict_of_pairs :: "(ustr \<times> json) list \<Rightarrow> (ustr \<times> json) list" where
  "dict_of_pairs ps = foldl (\<lambda>d (k, v). AList.update k v d) [] ps"

text \<open>
  \<^verbatim>\<open>scan_once\<close> with the array and object parsers. \<open>parse_items\<close> starts at the
  first character of an array element and reads up to the closing bracket;
  \<open>parse_members\<close> starts where the quote of an object key is expected and reads up
  to the closing brace. Each returns what it read and the rest of the input. The
  comparisons of lengths hold whenever they are reached (every element takes at least
  one character); they are what makes the recursion well-founded.
\<close>

function parse_value :: "string \<Rightarrow> (json \<times> string) option"
  and parse_items :: "string \<Rightarrow> (json list \<times> string) option"
  and parse_members :: "string \<Rightarrow> ((ustr \<times> json) list \<times> string) option"
where
  "parse_value [] = None"
| "parse_value (c # cs) =
     (if c = CHR 0x22 then map_option (\<lambda>(u, rest). (JStr u, rest)) (scanstring cs)
      else if c = CHR ''{'' then
        (case skip_ws cs of
           [] \<Rightarrow> None
         | d # ds \<Rightarrow>
             if d = CHR ''}'' then Some (JObj [], ds)
             else if length ds < length cs
             then map_option (\<lambda>(ps, rest). (JObj (dict_of_pairs ps), rest))
                    (parse_members (d # ds))
             else None)
      else if c = CHR ''['' then
        (case skip_ws cs of
           [] \<Rightarrow> None
         | d # ds \<Rightarrow>
             if d = CHR '']'' then Some (JArr [], ds)
             else if length ds < length cs
             then map_option (\<lambda>(vs, rest). (JArr vs, rest)) (parse_items (d # ds))
             else None)
      else if prefix ''null'' (c # cs) then Some (JNull, drop 3 cs)
      else if prefix ''true'' (c # cs) then Some (JBool True, drop 3 cs)
      else if prefix ''false'' (c # cs) then Some (JBool False, drop 4 cs)
      else if prefix ''NaN'' (c # cs) then Some (JFloat ''NaN'', drop 2 cs)
      else if prefix ''Infinity'' (c # cs) then Some (JFloat ''Infinity'', drop 7 cs)
      else if prefix ''-Infinity'' (c # cs) then Some (JFloat ''-Infinity'', drop 8 cs)
      else scan_number (c # cs))"
| "parse_items s =
     (case parse_value s of
        None \<Rightarrow> None
      | Some (v, rest) \<Rightarrow>
          (case skip_ws rest of
             [] \<Rightarrow> None
           | d # ds \<Rightarrow>
               if d = CHR '']'' then Some ([v], ds)
               else if d = CHR '','' \<and> length (skip_ws ds) < length s
               then cons_result v (parse_items (skip_ws ds))
               else None))"
| "parse_members s =
     (case s of
        [] \<Rightarrow> None
      | q # t \<Rightarrow>
          if q \<noteq> CHR 0x22 then None
          else
            (case scanstring t of
               None \<Rightarrow> None
             | Some (key, rest) \<Rightarrow>
                 (case skip_ws rest of
                    [] \<Rightarrow> None
                  | d # ds \<Rightarrow>
                      if d = CHR '':'' \<and> length (skip_ws ds) < length s then
                        (case parse_value (skip_ws ds) of
                           None \<Rightarrow> None
                         | Some (v, rest') \<Rightarrow>
                             (case skip_ws rest' of
                                [] \<Rightarrow> None
                              | e # es \<Rightarrow>
                                  if e = CHR ''}'' then Some ([(key, v)], es)
                                  else if e = CHR '','' \<and> length (skip_ws es) < length s
                                  then cons_result (key, v) (parse_members (skip_ws es))
                                  else None))
                      else None)))"
  by pat_completeness auto
termination
  by (relation "measure (\<lambda>x. case x of
                     Inl s \<Rightarrow> 2 * length s
                   | Inr (Inl s) \<Rightarrow> 2 * length s + 1
                   | Inr (Inr s) \<Rightarrow> 2 * length s + 1)") auto

text \<open>
  \<^verbatim>\<open>json.loads(s)\<close>: one value, with white space allowed before and after it and
  nothing else. \<open>None\<close> stands for \<^verbatim>\<open>JSONDecodeError\<close>.
\<close>

definition json_loads :: "string \<Rightarrow> json option" where
  "json_loads s =
     (case parse_value (skip_ws s) of
        None \<Rightarrow> None
      | Some (v, rest) \<Rightarrow> if skip_ws rest = [] then Some v else None)"

subsection \<open>Encoding\<close>

definition hex_digit :: "nat \<Rightarrow> char" where
  "hex_digit d = ''0123456789abcdef'' ! (d mod 16)"

definition hex4 :: "nat \<Rightarrow> string" where
  "hex4 n = [hex_digit (n div 4096), hex_digit (n div 256), hex_digit (n div 16), hex_digit n]"

text \<open>
  \<^verbatim>\<open>encode_basestring_ascii\<close>: the quote, the backslash and everything outside the
  printable ASCII range are escaped; a code point above \<^verbatim>\<open>0xFFFF\<close> becomes a
  surrogate pair.
\<close>

definition escape_char :: "nat \<Rightarrow> string" where
  "escape_char n =
     (if n = 0x22 then [CHR 0x5C, CHR 0x22]
      else if n = 0x5C then [CHR 0x5C, CHR 0x5C]
      else if n = 0x0A then [CHR 0x5C, CHR ''n'']
      else if n = 0x0D then [CHR 0x5C, CHR ''r'']
      else if n = 0x09 then [CHR 0x5C, CHR ''t'']
      else if n = 0x08 then [CHR 0x5C, CHR ''b'']
      else if n = 0x0C then [CHR 0x5C, CHR ''f'']
      else if 0x20 \<le> n \<and> n \<le> 0x7E then [char_of n]
      else if n < 0x10000 then [CHR 0x5C, CHR ''u''] @ hex4 n
      else [CHR 0x5C, CHR ''u''] @ hex4 (0xD800 + (n - 0x10000) div 1024 mod 1024)
         @ [CHR 0x5C, CHR ''u''] @ hex4 (0xDC00 + (n - 0x10000) mod 1024))"

definition encode_string :: "ustr \<Rightarrow> string" where
  "encode_string u = [CHR 0x22] @ concat (map escape_char u) @ [CHR 0x22]"

fun show_nat :: "nat \<Rightarrow> string" where
  "show_nat n = (if n < 10 then [char_of (48 + n)] else show_nat (n div 10) @ [char_of (48 + n mod 10)])"

declare show_nat.simps [simp del]

definition show_int :: "int \<Rightarrow> string" where
  "show_int i = (if i < 0 then CHR ''-'' # show_nat (nat (- i)) else show_nat (nat i))"

text \<open>\<^verbatim>\<open>sep.join(xs)\<close>.\<close>

fun join :: "string \<Rightarrow> string list \<Rightarrow> string" where
  "join sep [] = []"
| "join sep [x] = x"
| "join sep (x # y # ys) = x @ sep @ join sep (y # ys)"

text \<open>
  \<^verbatim>\<open>json.dumps\<close> (what \<^verbatim>\<open>json.dump\<close> writes to the file). A number that is not an
  integer is written as the token it was read from.
\<close>

fun json_dumps :: "json \<Rightarrow> string" where
  "json_dumps JNull = ''null''"
| "json_dumps (JBool b) = (if b then ''true'' else ''false'')"
| "json_dumps (JInt i) = show_int i"
| "json_dumps (JFloat t) = t"
| "json_dumps (JStr u) = encode_string u"
| "json_dumps (JArr vs) = ''['' @ join '', '' (map json_dumps vs) @ '']''"
| "json_dumps (JObj ps) =
     ''{'' @ join '', '' (map (\<lambda>(k, v). encode_string k @ '': '' @ json_dumps v) ps) @ ''}''"

section \<open>The staging area, the bucket and the caption service\<close>

text \<open>
  The state the handlers work on: the local file system (a map from paths to file
  contents; \<^verbatim>\<open>LOCAL_DIR\<close> is the staging area) and the object store (a map from
  bucket and blob name to contents). \<open>calls\<close> is a ghost field, the log of the
  operations on files and services that were attempted, in order; the program keeps
  no such log.
\<close>

datatype site =
    Save | PutImage | GeminiUpload | Generate | WriteJson | PutJson | RemoveImage | RemoveJson
  | GetImage | GetJson | ReadJson

record world =
  fs :: "string \<rightharpoonup> string"
  gcs :: "string \<times> string \<rightharpoonup> string"
  calls :: "site list"

text \<open>
  What lies outside the program during one request: which operations fail for a reason
  of their own (disk, network, credentials), and the text the caption service answers
  with (\<^verbatim>\<open>response.text\<close>).
\<close>

record env =
  faults :: "site set"
  reply :: string

datatype exn =
    BadRequestKeyError
  | Fault site
  | FileNotFoundError string
  | NotFound string
  | JSONDecodeError
  | KeyError ustr
  | TypeError

text \<open>
  A statement of a \<^verbatim>\<open>try\<close> block: it raises or returns a value, and leaves a new
  state either way. \<open>and_then\<close> runs the next statement unless the first one raised.
\<close>

type_synonym 'a io = "world \<Rightarrow> (exn + 'a) \<times> world"

definition and_then :: "'a io \<Rightarrow> ('a \<Rightarrow> 'b io) \<Rightarrow> 'b io" where
  "and_then m f w = (case m w of (Inl e, w') \<Rightarrow> (Inl e, w') | (Inr a, w') \<Rightarrow> f a w')"

definition attempt :: "env \<Rightarrow> site \<Rightarrow> unit io" where
  "attempt env s w =
     (if s \<in> faults env then Inl (Fault s) else Inr (), w\<lparr>calls := calls w @ [s]\<rparr>)"

text \<open>\<^verbatim>\<open>file.save(path)\<close> of the uploaded file.\<close>

definition file_save :: "env \<Rightarrow> string \<Rightarrow> string \<Rightarrow> unit io" where
  "file_save env path data =
     and_then (attempt env Save) (\<lambda>_ w. (Inr (), w\<lparr>fs := (fs w)(path \<mapsto> data)\<rparr>))"

text \<open>\<^verbatim>\<open>upload_to_gcs\<close>: the blob takes the contents of the local file.\<close>

definition upload_to_gcs :: "env \<Rightarrow> site \<Rightarrow> string \<Rightarrow> string \<Rightarrow> string \<Rightarrow> unit io" where
  "upload_to_gcs env s bucket_name file_path blob_name =
     and_then (attempt env s) (\<lambda>_ w.
       case fs w file_path of
         None \<Rightarrow> (Inl (FileNotFoundError file_path), w)
       | Some data \<Rightarrow> (Inr (), w\<lparr>gcs := (gcs w)((bucket_name, blob_name) \<mapsto> data)\<rparr>))"


text \<open>\<^verbatim>\<open>upload_to_gemini\<close>: the file must be there to be sent.\<close>

definition upload_to_gemini :: "env \<Rightarrow> string \<Rightarrow> unit io" where
  "upload_to_gemini env path =
     and_then (attempt env GeminiUpload) (\<lambda>_ w.
       case fs w path of
         None \<Rightarrow> (Inl (FileNotFoundError path), w)
       | Some data \<Rightarrow> (Inr (), w))"

text \<open>
  \<^verbatim>\<open>str.strip()\<close>: white space is removed at both ends. These are the code points
  below 256 that Python counts as white space.
\<close>

definition is_space :: "char \<Rightarrow> bool" where
  "is_space c \<longleftrightarrow>
     (let n = of_char c :: nat in
      (9 \<le> n \<and> n \<le> 13) \<or> (28 \<le> n \<and> n \<le> 32) \<or> n = 133 \<or> n = 160)"

definition strip :: "string \<Rightarrow> string" where
  "strip s = rev (dropWhile is_space (rev (dropWhile is_space s)))"

definition title_key :: ustr where
  "title_key = ustr ''title''"

definition description_key :: ustr where
  "description_key = ustr ''description''"

definition default_metadata :: json where
  "default_metadata =
     JObj [(title_key, JStr (ustr ''Untitled'')),
           (description_key, JStr (ustr ''No description available.''))]"

text \<open>
  Lines 79 to 82 of \<^verbatim>\<open>generate_image_caption\<close>: the answer is stripped; an empty
  text gives the default record, any other text is decoded (\<open>None\<close>: the decoder
  raises).
\<close>

definition parse_caption :: "string \<Rightarrow> json option" where
  "parse_caption response_text_raw =
     (let response_text = strip response_text_raw in
      if response_text \<noteq> [] then json_loads response_text else Some default_metadata)"

text \<open>\<^verbatim>\<open>generate_image_caption\<close>.\<close>

definition generate_image_caption :: "env \<Rightarrow> string \<Rightarrow> json io" where
  "generate_image_caption env image_path =
     and_then (upload_to_gemini env image_path) (\<lambda>_.
     and_then (attempt env Generate) (\<lambda>_ w.
       case parse_caption (reply env) of
         None \<Rightarrow> (Inl JSONDecodeError, w)
       | Some metadata \<Rightarrow> (Inr metadata, w)))"

text \<open>\<^verbatim>\<open>with open(json_path, "w") as json_file: json.dump(metadata, json_file)\<close>.\<close>

definition write_json :: "env \<Rightarrow> string \<Rightarrow> json \<Rightarrow> unit io" where
  "write_json env json_path metadata =
     and_then (attempt env WriteJson) (\<lambda>_ w.
       (Inr (), w\<lparr>fs := (fs w)(json_path \<mapsto> json_dumps metadata)\<rparr>))"

text \<open>\<^verbatim>\<open>os.remove(path)\<close>.\<close>

definition os_remove :: "env \<Rightarrow> site \<Rightarrow> string \<Rightarrow> unit io" where
  "os_remove env s path =
     and_then (attempt env s) (\<lambda>_ w.
       case fs w path of
         None \<Rightarrow> (Inl (FileNotFoundError path), w)
       | Some data \<Rightarrow> (Inr (), w\<lparr>fs := (fs w)(path := None)\<rparr>))"

section \<open>The handlers\<close>

text \<open>
  A response: a redirect to a target, the JSON document \<^verbatim>\<open>{"error": str(e)}\<close>, the
  detail page (the template with its three holes: title, filename, description), or
  the fragment \<^verbatim>\<open><p>Error fetching file: ...</p>\<close>. The text of an exception's
  message is not modelled; the exception itself stands for it.
\<close>

datatype response =
    Redirect string
  | JsonError exn
  | Page json string json
  | ErrorFragment exn


record file_storage =
  filename :: string
  content :: string

text \<open>The body of the \<^verbatim>\<open>try\<close> block of \<^verbatim>\<open>upload\<close>; \<open>files\<close> is \<^verbatim>\<open>request.files\<close>.\<close>

definition upload_try :: "env \<Rightarrow> (string \<rightharpoonup> file_storage) \<Rightarrow> string io" where
  "upload_try env files =
     (case files ''form_file'' of
        None \<Rightarrow> (\<lambda>w. (Inl BadRequestKeyError, w))
      | Some file \<Rightarrow>
          (let local_path = path_join LOCAL_DIR (filename file) in
           and_then (file_save env local_path (content file)) (\<lambda>_.
           and_then (upload_to_gcs env PutImage BUCKET_NAME local_path (filename file)) (\<lambda>_.
           and_then (generate_image_caption env local_path) (\<lambda>metadata.
           let json_path = json_name local_path in
           and_then (write_json env json_path metadata) (\<lambda>_.
           let json_filename = json_name (filename file) in
           and_then (upload_to_gcs env PutJson BUCKET_NAME json_path json_filename) (\<lambda>_.
           and_then (os_remove env RemoveImage local_path) (\<lambda>_.
           and_then (os_remove env RemoveJson json_path) (\<lambda>_ w.
           (Inr (''/files/'' @ filename file), w))))))))))"

definition upload :: "env \<Rightarrow> (string \<rightharpoonup> file_storage) \<Rightarrow> world \<Rightarrow> response \<times> world" where
  "upload env files w =
     (case upload_try env files w of
        (Inr target, w') \<Rightarrow> (Redirect target, w')
      | (Inl e, w') \<Rightarrow> (JsonError e, w'))"

text \<open>\<^verbatim>\<open>metadata[key]\<close>: only a dictionary can be indexed by a string.\<close>

fun subscript :: "json \<Rightarrow> ustr \<Rightarrow> exn + json" where
  "subscript (JObj ps) key = (case map_of ps key of None \<Rightarrow> Inl (KeyError key) | Some v \<Rightarrow> Inr v)"
| "subscript v key = Inl TypeError"









text \<open>
  A Unicode scalar value is a code point that is not a surrogate; well-formed text
  consists of scalar values.
\<close>

definition scalar_value :: "nat \<Rightarrow> bool" where
  "scalar_value c \<longleftrightarrow> c < 0xD800 \<or> (0xE000 \<le> c \<and> c < 0x110000)"

section \<open>Properties of the derived key\<close>

lemma replace_absent: "\<not> contains (a # as) s \<Longrightarrow> replace (a # as) new s = s"
  by (induction s) auto

text \<open>
  A character that occurs in \<open>new\<close> but not in \<open>old\<close> is never lost by a replacement,
  and every replacement adds one.
\<close>

lemma replace_at_prefix:
  "replace (a # as) new ((a # as) @ q) = new @ replace (a # as) new q"
  by simp

lemma count_replace_ge:
  "x \<notin> set (a # as) \<Longrightarrow> count_list s x \<le> count_list (replace (a # as) new s) x"
proof (induction s rule: length_induct)
  case (1 s)
  show ?case
  proof (cases s)
    case Nil
    then show ?thesis by simp
  next
    case (Cons c cs)
    show ?thesis
    proof (cases "prefix (a # as) (c # cs)")
      case True
      then obtain q where q: "s = (a # as) @ q" using Cons by (auto simp: prefix_def)
      have "length q < length s" using q by simp
      with 1 have "count_list q x \<le> count_list (replace (a # as) new q) x" by blast
      moreover have "count_list s x = count_list q x" using 1(2) unfolding q by auto
      moreover have "replace (a # as) new s = new @ replace (a # as) new q"
        unfolding q by (rule replace_at_prefix)
      ultimately show ?thesis by simp
    next
      case False
      then have r: "replace (a # as) new (c # cs) = c # replace (a # as) new cs" by auto
      have "length cs < length s" using Cons by simp
      with 1 have "count_list cs x \<le> count_list (replace (a # as) new cs) x" by blast
      then show ?thesis unfolding Cons r by simp
    qed
  qed
qed

lemma count_replace_gt:
  "x \<notin> set (a # as) \<Longrightarrow> x \<in> set new \<Longrightarrow> contains (a # as) s \<Longrightarrow>
   count_list s x < count_list (replace (a # as) new s) x"
proof (induction s)
  case Nil
  then show ?case by simp
next
  case (Cons c cs)
  show ?case
  proof (cases "prefix (a # as) (c # cs)")
    case True
    then obtain q where q: "c # cs = (a # as) @ q" by (auto simp: prefix_def)
    have "count_list (c # cs) x = count_list q x" using Cons.prems(1) unfolding q by auto
    moreover have "count_list q x \<le> count_list (replace (a # as) new q) x"
      using Cons.prems(1) by (rule count_replace_ge)
    moreover have "0 < count_list new x"
      using Cons.prems(2) by (meson count_list_0_iff not_gr_zero)
    moreover have "replace (a # as) new (c # cs) = new @ replace (a # as) new q"
      unfolding q by (rule replace_at_prefix)
    ultimately show ?thesis by simp
  next
    case False
    then have r: "replace (a # as) new (c # cs) = c # replace (a # as) new cs" by auto
    from False Cons.prems(3) have "contains (a # as) cs" by auto
    with Cons have "count_list cs x < count_list (replace (a # as) new cs) x" by blast
    then show ?thesis unfolding r by simp
  qed
qed

text \<open>The derived name is the name itself exactly when no replacement takes place.\<close>

lemma json_name_fixed_iff:
  "json_name x = x \<longleftrightarrow> \<not> contains ''.jpg'' x \<and> \<not> contains ''.jpeg'' x"
proof (cases "contains ''.jpeg'' x")
  case True
  have "count_list x CHR ''s'' < count_list (replace ''.jpeg'' ''.json'' x) CHR ''s''"
    using True by (intro count_replace_gt) simp_all
  also have "\<dots> \<le> count_list (json_name x) CHR ''s''"
    unfolding json_name_def by (intro count_replace_ge) simp
  finally have "json_name x \<noteq> x" by auto
  with True show ?thesis by simp
next
  case False
  then have r: "replace ''.jpeg'' ''.json'' x = x" by (rule replace_absent)
  show ?thesis
  proof (cases "contains ''.jpg'' x")
    case True
    have "count_list x CHR ''s'' < count_list (json_name x) CHR ''s''"
      unfolding json_name_def r using True by (intro count_replace_gt) simp_all
    then have "json_name x \<noteq> x" by auto
    with True show ?thesis by simp
  next
    case c: False
    then have "replace ''.jpg'' ''.json'' x = x" by (rule replace_absent)
    with r False c show ?thesis by (simp add: json_name_def)
  qed
qed


lemma replace_jpg_first: "\<not> contains ''.jpg'' stem \<Longrightarrow>
  replace ''.jpg'' new (stem @ ''.jpg'' @ q) = stem @ new @ replace ''.jpg'' new q"
  by (induction stem) (auto simp: prefix_append Cons_eq_append_conv)

lemma replace_jpeg_skips_jpg: "\<not> contains ''.jpeg'' stem \<Longrightarrow>
  replace ''.jpeg'' new (stem @ ''.jpg'' @ q) = stem @ ''.jpg'' @ replace ''.jpeg'' new q"
  by (induction stem) (auto simp: prefix_append Cons_eq_append_conv)

lemma replace_jpeg_first: "\<not> contains ''.jpeg'' stem \<Longrightarrow>
  replace ''.jpeg'' new (stem @ ''.jpeg'' @ q) = stem @ new @ replace ''.jpeg'' new q"
  by (induction stem) (auto simp: prefix_append Cons_eq_append_conv)

lemma replace_jpg_skips_json: "\<not> contains ''.jpg'' stem \<Longrightarrow>
  replace ''.jpg'' new (stem @ ''.json'' @ q) = stem @ ''.json'' @ replace ''.jpg'' new q"
  by (induction stem) (auto simp: prefix_append Cons_eq_append_conv)

lemma prefix_replace_other:
  "c \<noteq> CHR ''.'' \<Longrightarrow>
   prefix (c # u) (replace (CHR ''.'' # as) (CHR ''.'' # ns) s)
   \<longleftrightarrow> (\<exists>t. s = c # t \<and> prefix u (replace (CHR ''.'' # as) (CHR ''.'' # ns) t))"
  by (cases s) auto

lemma no_jpg_left: "\<not> contains ''.jpg'' (replace ''.jpg'' ''.json'' s)"
proof (induction s rule: length_induct)
  case (1 s)
  show ?case
  proof (cases s)
    case Nil
    then show ?thesis by simp
  next
    case (Cons c cs)
    show ?thesis
    proof (cases "prefix ''.jpg'' (c # cs)")
      case True
      then obtain q where q: "s = ''.jpg'' @ q" using Cons by (auto simp: prefix_def)
      have "length q < length s" using q by simp
      with 1 have "\<not> contains ''.jpg'' (replace ''.jpg'' ''.json'' q)" by blast
      then show ?thesis unfolding q by simp
    next
      case False
      then have r: "replace ''.jpg'' ''.json'' (c # cs) = c # replace ''.jpg'' ''.json'' cs"
        by auto
      have "length cs < length s" using Cons by simp
      with 1 have ih: "\<not> contains ''.jpg'' (replace ''.jpg'' ''.json'' cs)" by blast
      have "\<not> prefix ''.jpg'' (c # replace ''.jpg'' ''.json'' cs)"
        using False by (auto simp: prefix_replace_other)
      with ih show ?thesis unfolding Cons r by simp
    qed
  qed
qed

lemma no_jpeg_left: "\<not> contains ''.jpeg'' (replace ''.jpeg'' ''.json'' s)"
proof (induction s rule: length_induct)
  case (1 s)
  show ?case
  proof (cases s)
    case Nil
    then show ?thesis by simp
  next
    case (Cons c cs)
    show ?thesis
    proof (cases "prefix ''.jpeg'' (c # cs)")
      case True
      then obtain q where q: "s = ''.jpeg'' @ q" using Cons by (auto simp: prefix_def)
      have "length q < length s" using q by simp
      with 1 have "\<not> contains ''.jpeg'' (replace ''.jpeg'' ''.json'' q)" by blast
      then show ?thesis unfolding q by simp
    next
      case False
      then have r: "replace ''.jpeg'' ''.json'' (c # cs) = c # replace ''.jpeg'' ''.json'' cs"
        by auto
      have "length cs < length s" using Cons by simp
      with 1 have ih: "\<not> contains ''.jpeg'' (replace ''.jpeg'' ''.json'' cs)" by blast
      have "\<not> prefix ''.jpeg'' (c # replace ''.jpeg'' ''.json'' cs)"
        using False by (auto simp: prefix_replace_other)
      with ih show ?thesis unfolding Cons r by simp
    qed
  qed
qed

lemma replace_jpg_no_new_jpeg:
  "\<not> contains ''.jpeg'' s \<Longrightarrow> \<not> contains ''.jpeg'' (replace ''.jpg'' ''.json'' s)"
proof (induction s rule: length_induct)
  case (1 s)
  show ?case
  proof (cases s)
    case Nil
    then show ?thesis by simp
  next
    case (Cons c cs)
    show ?thesis
    proof (cases "prefix ''.jpg'' (c # cs)")
      case True
      then obtain q where q: "s = ''.jpg'' @ q" using Cons by (auto simp: prefix_def)
      have "length q < length s" using q by simp
      moreover have "\<not> contains ''.jpeg'' q" using 1(2) unfolding q by simp
      ultimately have "\<not> contains ''.jpeg'' (replace ''.jpg'' ''.json'' q)" using 1 by blast
      then show ?thesis unfolding q by simp
    next
      case False
      then have r: "replace ''.jpg'' ''.json'' (c # cs) = c # replace ''.jpg'' ''.json'' cs"
        by auto
      have "length cs < length s" using Cons by simp
      moreover have "\<not> contains ''.jpeg'' cs" using 1(2) unfolding Cons by simp
      ultimately have ih: "\<not> contains ''.jpeg'' (replace ''.jpg'' ''.json'' cs)" using 1 by blast
      have "\<not> prefix ''.jpeg'' (c # cs)" using 1(2) unfolding Cons by simp
      then have "\<not> prefix ''.jpeg'' (c # replace ''.jpg'' ''.json'' cs)"
        by (auto simp: prefix_replace_other)
      with ih show ?thesis unfolding Cons r by simp
    qed
  qed
qed

text \<open>
  Claim C2, as amended. For every filename the derived key is the filename with every
  occurrence of \<^verbatim>\<open>.jpeg\<close>, and then every occurrence of \<^verbatim>\<open>.jpg\<close>, replaced by
  \<^verbatim>\<open>.json\<close>: the key contains neither \<^verbatim>\<open>.jpg\<close> nor \<^verbatim>\<open>.jpeg\<close>; it is the
  filename itself exactly when the filename contains neither; and where a stem that
  contains neither is followed by \<^verbatim>\<open>.jpg\<close> or \<^verbatim>\<open>.jpeg\<close>, the key is the stem, then
  \<^verbatim>\<open>.json\<close>, then the key derived from what follows. So for a stem followed by
  \<^verbatim>\<open>.jpg\<close> or \<^verbatim>\<open>.jpeg\<close> and nothing else, the trailing extension is swapped and
  the rest of the name is unchanged.
\<close>

theorem json_name_replaces_every_extension:
  "\<not> contains ''.jpg'' (json_name x) \<and> \<not> contains ''.jpeg'' (json_name x)
   \<and> (json_name x = x \<longleftrightarrow> \<not> contains ''.jpg'' x \<and> \<not> contains ''.jpeg'' x)
   \<and> (\<not> contains ''.jpg'' stem \<and> \<not> contains ''.jpeg'' stem \<longrightarrow>
        json_name (stem @ ''.jpg'' @ rest) = stem @ ''.json'' @ json_name rest
      \<and> json_name (stem @ ''.jpeg'' @ rest) = stem @ ''.json'' @ json_name rest
      \<and> json_name (stem @ ''.jpg'') = stem @ ''.json''
      \<and> json_name (stem @ ''.jpeg'') = stem @ ''.json'')"
proof -
  have a: "\<not> contains ''.jpg'' (json_name x)"
    unfolding json_name_def by (rule no_jpg_left)
  have b: "\<not> contains ''.jpeg'' (json_name x)"
    unfolding json_name_def by (rule replace_jpg_no_new_jpeg) (rule no_jpeg_left)
  have c: "json_name (stem @ ''.jpg'' @ rest) = stem @ ''.json'' @ json_name rest"
    and d: "json_name (stem @ ''.jpeg'' @ rest) = stem @ ''.json'' @ json_name rest"
    if "\<not> contains ''.jpg'' stem" "\<not> contains ''.jpeg'' stem" for rest
    unfolding json_name_def
    by (simp_all only: replace_jpg_first [OF that(1)] replace_jpeg_skips_jpg [OF that(2)] replace_jpeg_first [OF that(2)] replace_jpg_skips_json [OF that(1)])
  have e: "json_name (stem @ ''.jpg'') = stem @ ''.json''"
    and f: "json_name (stem @ ''.jpeg'') = stem @ ''.json''"
    if "\<not> contains ''.jpg'' stem" "\<not> contains ''.jpeg'' stem"
    using c [OF that, of "[]"] d [OF that, of "[]"] by (simp_all add: json_name_def)
  show ?thesis using a b c d e f json_name_fixed_iff [of x] by blast
qed

theorem json_name_replaces_every_extension_witness:
  "\<not> contains ''.jpg'' ''holiday'' \<and> \<not> contains ''.jpeg'' ''holiday''
   \<and> json_name ''holiday.jpg.2024.jpeg'' = ''holiday.json'' @ json_name ''.2024.jpeg''
   \<and> json_name ''holiday.jpg.2024.jpeg'' = ''holiday.json.2024.json''
   \<and> json_name ''holiday.jpg'' = ''holiday.json''
   \<and> json_name ''holiday.jpeg'' = ''holiday.json''
   \<and> \<not> contains ''.jpg'' (json_name ''holiday.jpg.2024.jpeg'')"
  using json_name_replaces_every_extension [of "''holiday.jpg.2024.jpeg''" "''holiday''" "''.2024.jpeg''"]
  by (simp add: json_name_def)

text \<open>
  Claim C2 as stated fails: in \<^verbatim>\<open>a.jpg.jpg\<close> the trailing extension is \<^verbatim>\<open>.jpg\<close> and
  the rest is \<^verbatim>\<open>a.jpg\<close>, but the derived key is \<^verbatim>\<open>a.json.json\<close>.
\<close>

theorem json_name_counterexample:
  "json_name ''a.jpg.jpg'' = ''a.json.json'' \<and> json_name ''a.jpg.jpg'' \<noteq> ''a.jpg'' @ ''.json''"
  by (simp add: json_name_def)

section \<open>Running the handlers\<close>


section \<open>Retrieval\<close>



section \<open>The upload pipeline\<close>




lemma upload_eq:
  "upload env files w = (r, w') \<longleftrightarrow>
   (case upload_try env files w of (Inr t, v) \<Rightarrow> r = Redirect t \<and> w' = v
                                  | (Inl e, v) \<Rightarrow> r = JsonError e \<and> w' = v)"
  by (auto simp: upload_def split: prod.splits sum.splits)












section \<open>The caption\<close>

lemma subscript_Inr_iff:
  "subscript v k = Inr x \<longleftrightarrow> (\<exists>ps. v = JObj ps \<and> map_of ps k = Some x)"
  by (cases v) (auto split: option.splits)







section \<open>When retrieval fails\<close>



end
